theory Spec2Isabelle
  imports Main "HOL-Library.Sublist"
begin

section \<open>The post-install command of the CLI: host, system information, logger\<close>

text \<open>
  The class \<^verbatim>\<open>PostInstallCommand\<close> of \<^verbatim>\<open>src/services/analytics-type.ts\<close>
  (lines 35-164) prints, after installation, one block of text for every third-party tool
  that the system information reports as missing. It has two procedures, one per client:
  \<^verbatim>\<open>printNSWarnings\<close> for the NativeScript CLI (client name \<^verbatim>\<open>tns\<close>) and
  \<^verbatim>\<open>printAppBuilderWarnings\<close> for every other client. Both write to the logger
  only, so the embedding threads the logger through as the list of calls made on it.
\<close>

subsection \<open>Host platform\<close>

text \<open>
  Modelled from the spec: the module \<^verbatim>\<open>../host-info\<close> (its functions
  \<^verbatim>\<open>isWindows\<close> and \<^verbatim>\<open>isDarwin\<close>) is imported at line 30 and is not among the
  sources. The specification classifies the host as one of Windows, Darwin and Other, derived
  once from the operating system; the two tests are the membership tests of that
  classification.
\<close>

datatype platform = Windows | Darwin | Other

definition isWindows :: "platform \<Rightarrow> bool" where
  "isWindows host = (host = Windows)"

definition isDarwin :: "platform \<Rightarrow> bool" where
  "isDarwin host = (host = Darwin)"

text \<open>
  \<^verbatim>\<open>os.EOL\<close> of the Node.js runtime: carriage return and line feed on Windows, a
  line feed on every other host.
\<close>

definition EOL :: "platform \<Rightarrow> string" where
  "EOL host = (if isWindows host then [CHR 0x0D, CHR 0x0A] else [CHR 0x0A])"

subsection \<open>System information\<close>

text \<open>
  The fields of \<^verbatim>\<open>ISysInfoData\<close> that the two procedures read. A version is a
  string that may be missing (\<^verbatim>\<open>null\<close> or \<^verbatim>\<open>undefined\<close>); the procedures test it
  with JavaScript's \<^verbatim>\<open>!\<close>, under which a missing value and the empty string are both
  false.
\<close>

record ISysInfoData =
  adbVer :: "string option"
  antVer :: "string option"
  androidInstalled :: bool
  xcodeVer :: "string option"
  itunesInstalled :: bool
  javaVer :: "string option"

definition truthy :: "string option \<Rightarrow> bool" where
  "truthy v = (case v of None \<Rightarrow> False | Some s \<Rightarrow> s \<noteq> [])"

subsection \<open>Logger\<close>

text \<open>
  The logger records the calls made on it, in order: \<^verbatim>\<open>$logger.warn(msg)\<close> and
  \<^verbatim>\<open>$logger.out(msg)\<close>.
\<close>

datatype log_entry = Warn string | Out string

type_synonym logger = "log_entry list"

definition warn :: "string \<Rightarrow> logger \<Rightarrow> logger" where
  "warn msg lg = lg @ [Warn msg]"

definition out :: "string \<Rightarrow> logger \<Rightarrow> logger" where
  "out msg lg = lg @ [Out msg]"

section \<open>The package-manager tip (lines 74-80)\<close>

text \<open>The argument of \<^verbatim>\<open>$logger.out\<close> at line 76.\<close>

definition windows_tip :: "platform \<Rightarrow> string" where
  "windows_tip host =
     ''TIP: To avoid setting up the necessary environment variables, you can use the chocolatey package manager to install the Android SDK and its dependencies.'' @ EOL host"

text \<open>The argument of \<^verbatim>\<open>$logger.out\<close> at line 78.\<close>

definition darwin_tip :: "platform \<Rightarrow> string" where
  "darwin_tip host =
     ''TIP: To avoid setting up the necessary environment variables, you can use the Homebrew package manager to install the Android SDK and its dependencies.'' @ EOL host"


definition printPackageManagerTip :: "platform \<Rightarrow> logger \<Rightarrow> logger" where
  "printPackageManagerTip host lg =
     (if isWindows host then out (windows_tip host) lg
      else if isDarwin host then out (darwin_tip host) lg
      else lg)"

section \<open>Warnings of the NativeScript CLI (lines 82-128)\<close>

text \<open>The argument of \<^verbatim>\<open>$logger.warn\<close> at line 84.\<close>

definition ns_adb_headline :: "string" where
  "ns_adb_headline =
     ''WARNING: adb from the Android SDK is not installed or is not configured properly.''"

text \<open>The argument of \<^verbatim>\<open>$logger.out\<close> at lines 85-88.\<close>

definition ns_adb_detail :: "platform \<Rightarrow> string" where
  "ns_adb_detail host =
     ''For Android-related operations, the NativeScript CLI will use a built-in version of adb.'' @ EOL host @
     ''To avoid possible issues with the native Android emulator, Genymotion or connected'' @ EOL host @
     ''Android devices, verify that you have installed the latest Android SDK and'' @ EOL host @
     ''its dependencies as described in http://developer.android.com/sdk/index.html#Requirements'' @ EOL host"

text \<open>The argument of \<^verbatim>\<open>$logger.warn\<close> at line 93.\<close>

definition ns_ant_headline :: "string" where
  "ns_ant_headline =
     ''WARNING: Apache Ant is not installed or is not configured properly.''"

text \<open>The argument of \<^verbatim>\<open>$logger.out\<close> at lines 94-96.\<close>

definition ns_ant_detail :: "platform \<Rightarrow> string" where
  "ns_ant_detail host =
     ''You will not be able to build your projects for Android.'' @ EOL host @
     ''To be able to build for Android, download and install Apache Ant and'' @ EOL host @
     ''its dependencies as described in http://ant.apache.org/manual/index.html'' @ EOL host"

text \<open>The argument of \<^verbatim>\<open>$logger.warn\<close> at line 101.\<close>

definition ns_android_headline :: "string" where
  "ns_android_headline =
     ''WARNING: The Android SDK is not installed or is not configured properly.''"

text \<open>The argument of \<^verbatim>\<open>$logger.out\<close> at lines 102-105.\<close>

definition ns_android_detail :: "platform \<Rightarrow> string" where
  "ns_android_detail host =
     ''You will not be able to build your projects for Android and run them in the native emulator.'' @ EOL host @
     ''To be able to build for Android and run apps in the native emulator, verify that you have'' @ EOL host @
     ''installed the latest Android SDK and its dependencies as described in http://developer.android.com/sdk/index.html#Requirements'' @ EOL host"

text \<open>The argument of \<^verbatim>\<open>$logger.warn\<close> at line 110.\<close>

definition ns_xcode_headline :: "string" where
  "ns_xcode_headline =
     ''WARNING: Xcode is not installed or is not configured properly.''"

text \<open>The argument of \<^verbatim>\<open>$logger.out\<close> at lines 111-112.\<close>

definition ns_xcode_detail :: "platform \<Rightarrow> string" where
  "ns_xcode_detail host =
     ''You will not be able to build your projects for iOS or run them in the iOS Simulator.'' @ EOL host @
     ''To be able to build for iOS and run apps in the native emulator, verify that you have installed Xcode.'' @ EOL host"

text \<open>The argument of \<^verbatim>\<open>$logger.warn\<close> at line 115.\<close>

definition ns_itunes_headline :: "string" where
  "ns_itunes_headline =
     ''WARNING: iTunes is not installed.''"

text \<open>The argument of \<^verbatim>\<open>$logger.out\<close> at lines 116-118.\<close>

definition ns_itunes_detail :: "platform \<Rightarrow> string" where
  "ns_itunes_detail host =
     ''You will not be able to work with iOS devices via cable connection.'' @ EOL host @
     ''To be able to work with connected iOS devices,'' @ EOL host @
     ''download and install iTunes from http://www.apple.com'' @ EOL host"

text \<open>The argument of \<^verbatim>\<open>$logger.warn\<close> at line 121.\<close>

definition ns_java_headline :: "string" where
  "ns_java_headline =
     ''WARNING: The Java Development Kit (JDK) is not installed or is not configured properly.''"

text \<open>The argument of \<^verbatim>\<open>$logger.out\<close> at lines 122-126.\<close>

definition ns_java_detail :: "platform \<Rightarrow> string" where
  "ns_java_detail host =
     ''You will not be able to work with the Android SDK and you might not be able'' @ EOL host @
     ''to perform some Android-related operations. To ensure that you can develop and'' @ EOL host @
     ''test your apps for Android, verify that you have installed the JDK as'' @ EOL host @
     ''described in http://docs.oracle.com/javase/8/docs/technotes/guides/install/install_overview.html (for JDK 8)'' @ EOL host @
     ''or http://docs.oracle.com/javase/7/docs/webnotes/install/ (for JDK 7).'' @ EOL host"


text \<open>
  The six consecutive \<^verbatim>\<open>if\<close> statements of \<^verbatim>\<open>printNSWarnings\<close>, each passing the
  logger on to the next.
\<close>

definition printNSWarnings :: "platform \<Rightarrow> ISysInfoData \<Rightarrow> logger \<Rightarrow> logger" where
  "printNSWarnings host sysInfo lg0 =
     (let lg1 = (if \<not> truthy (adbVer sysInfo)
                 then printPackageManagerTip host
                        (out (ns_adb_detail host) (warn ns_adb_headline lg0))
                 else lg0);
          lg2 = (if \<not> truthy (antVer sysInfo)
                 then printPackageManagerTip host
                        (out (ns_ant_detail host) (warn ns_ant_headline lg1))
                 else lg1);
          lg3 = (if \<not> androidInstalled sysInfo
                 then printPackageManagerTip host
                        (out (ns_android_detail host) (warn ns_android_headline lg2))
                 else lg2);
          lg4 = (if isDarwin host \<and> \<not> truthy (xcodeVer sysInfo)
                 then out (ns_xcode_detail host) (warn ns_xcode_headline lg3)
                 else lg3);
          lg5 = (if \<not> itunesInstalled sysInfo
                 then out (ns_itunes_detail host) (warn ns_itunes_headline lg4)
                 else lg4);
          lg6 = (if \<not> truthy (javaVer sysInfo)
                 then out (ns_java_detail host) (warn ns_java_headline lg5)
                 else lg5)
      in lg6)"

section \<open>Warnings of the AppBuilder CLI (lines 130-163)\<close>

text \<open>The argument of \<^verbatim>\<open>$logger.warn\<close> at line 132.\<close>

definition ab_adb_headline :: "string" where
  "ab_adb_headline =
     ''WARNING: adb from the Android SDK is not installed or is not configured properly. ''"

text \<open>The argument of \<^verbatim>\<open>$logger.out\<close> at lines 133-136.\<close>

definition ab_adb_detail :: "platform \<Rightarrow> string" where
  "ab_adb_detail host =
     ''For Android-related operations, the AppBuilder CLI will use a built-in version of adb.'' @ EOL host @
     ''To avoid possible issues with the native Android emulator, Genymotion or connected'' @ EOL host @
     ''Android devices, verify that you have installed the latest Android SDK and'' @ EOL host @
     ''its dependencies as described in http://developer.android.com/sdk/index.html#Requirements'' @ EOL host"

text \<open>The argument of \<^verbatim>\<open>$logger.warn\<close> at line 141.\<close>

definition ab_android_headline :: "string" where
  "ab_android_headline =
     ''WARNING: The Android SDK is not installed or is not configured properly.''"

text \<open>The argument of \<^verbatim>\<open>$logger.out\<close> at lines 142-145.\<close>

definition ab_android_detail :: "platform \<Rightarrow> string" where
  "ab_android_detail host =
     ''You will not be able to run your apps in the native emulator. To be able to run apps'' @ EOL host @
     ''in the native Android emulator, verify that you have installed the latest Android SDK '' @ EOL host @
     ''and its dependencies as described in http://developer.android.com/sdk/index.html#Requirements'' @ EOL host"

text \<open>The argument of \<^verbatim>\<open>$logger.warn\<close> at line 150.\<close>

definition ab_itunes_headline :: "string" where
  "ab_itunes_headline =
     ''WARNING: iTunes is not installed.''"

text \<open>The argument of \<^verbatim>\<open>$logger.out\<close> at lines 151-153.\<close>

definition ab_itunes_detail :: "platform \<Rightarrow> string" where
  "ab_itunes_detail host =
     ''You will not be able to work with iOS devices via cable connection.'' @ EOL host @
     ''To be able to work with connected iOS devices,'' @ EOL host @
     ''download and install iTunes from http://www.apple.com'' @ EOL host"

text \<open>The argument of \<^verbatim>\<open>$logger.warn\<close> at line 156.\<close>

definition ab_java_headline :: "string" where
  "ab_java_headline =
     ''WARNING: The Java Development Kit (JDK) is not installed or is not configured properly.''"

text \<open>The argument of \<^verbatim>\<open>$logger.out\<close> at lines 157-161.\<close>

definition ab_java_detail :: "platform \<Rightarrow> string" where
  "ab_java_detail host =
     ''You will not be able to work with the Android SDK and you might not be able'' @ EOL host @
     ''to perform some Android-related operations. To ensure that you can develop and'' @ EOL host @
     ''test your apps for Android, verify that you have installed the JDK as'' @ EOL host @
     ''described in http://docs.oracle.com/javase/8/docs/technotes/guides/install/install_overview.html (for JDK 8)'' @ EOL host @
     ''or http://docs.oracle.com/javase/7/docs/webnotes/install/ (for JDK 7).'' @ EOL host"

text \<open>The four consecutive \<^verbatim>\<open>if\<close> statements of \<^verbatim>\<open>printAppBuilderWarnings\<close>.\<close>

definition printAppBuilderWarnings :: "platform \<Rightarrow> ISysInfoData \<Rightarrow> logger \<Rightarrow> logger" where
  "printAppBuilderWarnings host sysInfo lg0 =
     (let lg1 = (if \<not> truthy (adbVer sysInfo)
                 then printPackageManagerTip host
                        (out (ab_adb_detail host) (warn ab_adb_headline lg0))
                 else lg0);
          lg2 = (if \<not> androidInstalled sysInfo
                 then printPackageManagerTip host
                        (out (ab_android_detail host) (warn ab_android_headline lg1))
                 else lg1);
          lg3 = (if \<not> itunesInstalled sysInfo
                 then out (ab_itunes_detail host) (warn ab_itunes_headline lg2)
                 else lg2);
          lg4 = (if \<not> truthy (javaVer sysInfo)
                 then out (ab_java_detail host) (warn ab_java_headline lg3)
                 else lg3)
      in lg4)"

section \<open>Choice of the procedure (lines 62-68)\<close>

text \<open>
  \<^verbatim>\<open>execute\<close> compares the client name of the static configuration with
  \<^verbatim>\<open>"tns"\<close> and runs one of the two procedures. Its other steps (ownership of the
  profile directory, help pages, autocompletion) do not touch the logger calls modelled here.
\<close>

definition isNativeScript :: "string \<Rightarrow> bool" where
  "isNativeScript CLIENT_NAME = (CLIENT_NAME = ''tns'')"

definition execute :: "string \<Rightarrow> platform \<Rightarrow> ISysInfoData \<Rightarrow> logger \<Rightarrow> logger" where
  "execute CLIENT_NAME host sysInfo lg =
     (if isNativeScript CLIENT_NAME then printNSWarnings host sysInfo lg
      else printAppBuilderWarnings host sysInfo lg)"

text \<open>
  The specification calls the client the persona: the primary product is the NativeScript
  CLI, the legacy product is AppBuilder. Its operation \<open>compose\<close> is the output of the
  chosen procedure on a fresh logger.
\<close>

datatype persona = PrimaryProduct | LegacyProduct

definition compose :: "ISysInfoData \<Rightarrow> persona \<Rightarrow> platform \<Rightarrow> log_entry list" where
  "compose snapshot p host =
     (case p of
        PrimaryProduct \<Rightarrow> printNSWarnings host snapshot []
      | LegacyProduct \<Rightarrow> printAppBuilderWarnings host snapshot [])"

section \<open>Reading the output\<close>

text \<open>
  The definitions of this section are not in the source: they name what the properties
  below speak of. A tip is a call of \<^verbatim>\<open>$logger.out\<close> whose text starts with
  \<^verbatim>\<open>TIP:\<close>.
\<close>

definition is_tip_text :: "string \<Rightarrow> bool" where
  "is_tip_text t = prefix ''TIP:'' t"

definition is_tip :: "log_entry \<Rightarrow> bool" where
  "is_tip e = (case e of Out t \<Rightarrow> is_tip_text t | Warn h \<Rightarrow> False)"

text \<open>
  The rule of the specification's table (section 4.1) that a headline belongs to:
  1 adb, 2 Apache Ant, 3 Android SDK, 4 Xcode, 5 iTunes, 6 JDK. The headlines are those of
  both procedures.
\<close>

definition rule_of_headline :: "string \<Rightarrow> nat option" where
  "rule_of_headline h =
     (if h = ns_adb_headline \<or> h = ab_adb_headline then Some 1
      else if h = ns_ant_headline then Some 2
      else if h = ns_android_headline \<or> h = ab_android_headline then Some 3
      else if h = ns_xcode_headline then Some 4
      else if h = ns_itunes_headline \<or> h = ab_itunes_headline then Some 5
      else if h = ns_java_headline \<or> h = ab_java_headline then Some 6
      else None)"

definition rule_of :: "log_entry \<Rightarrow> nat option" where
  "rule_of e = (case e of Warn h \<Rightarrow> rule_of_headline h | Out t \<Rightarrow> None)"

text \<open>The rules whose headline was logged, in the order of the log.\<close>

definition fired_rules :: "log_entry list \<Rightarrow> nat list" where
  "fired_rules es = List.map_filter rule_of es"

text \<open>
  The specification's unit of output (section 3): a headline, a detail and an optional tip.
  \<open>warnings_of\<close> reads a log as a sequence of such units: a headline, the text that
  follows it and, when the next text is a tip, that tip. \<open>render\<close> writes a unit back
  as logger calls.
\<close>

record warning =
  headline :: string
  detail :: string
  tip :: "string option"

fun warnings_of :: "log_entry list \<Rightarrow> warning list" where
  "warnings_of (Warn h # Out d # Out t # es) =
     (if is_tip_text t
      then \<lparr>headline = h, detail = d, tip = Some t\<rparr> # warnings_of es
      else \<lparr>headline = h, detail = d, tip = None\<rparr> # warnings_of (Out t # es))"
| "warnings_of (Warn h # Out d # es) =
     \<lparr>headline = h, detail = d, tip = None\<rparr> # warnings_of es"
| "warnings_of (e # es) = warnings_of es"
| "warnings_of [] = []"

definition render :: "warning \<Rightarrow> log_entry list" where
  "render w =
     Warn (headline w) # Out (detail w) # (case tip w of None \<Rightarrow> [] | Some t \<Rightarrow> [Out t])"

text \<open>What \<^verbatim>\<open>printPackageManagerTip\<close> adds to a log, and its text if any.\<close>

definition tip_text :: "platform \<Rightarrow> string option" where
  "tip_text host =
     (case host of
        Windows \<Rightarrow> Some (windows_tip host)
      | Darwin \<Rightarrow> Some (darwin_tip host)
      | Other \<Rightarrow> None)"

definition tip_entries :: "platform \<Rightarrow> log_entry list" where
  "tip_entries host = (case tip_text host of None \<Rightarrow> [] | Some t \<Rightarrow> [Out t])"

text \<open>Whether a word occurs in the text of a logger call.\<close>

definition mentions :: "string \<Rightarrow> log_entry \<Rightarrow> bool" where
  "mentions word e = (case e of Warn h \<Rightarrow> sublist word h | Out t \<Rightarrow> sublist word t)"

text \<open>
  The output written as one block per test, with the outcome of the six tests of the
  system information as parameters (\<open>True\<close>: the tool was found).
\<close>

definition emitted ::
  "persona \<Rightarrow> platform \<Rightarrow> bool \<Rightarrow> bool \<Rightarrow> bool \<Rightarrow> bool \<Rightarrow> bool \<Rightarrow> bool \<Rightarrow> log_entry list" where
  "emitted p host adb ant android xcode itunes java =
     (case p of
        PrimaryProduct \<Rightarrow>
          (if adb then []
           else Warn ns_adb_headline # Out (ns_adb_detail host) # tip_entries host) @
          (if ant then []
           else Warn ns_ant_headline # Out (ns_ant_detail host) # tip_entries host) @
          (if android then []
           else Warn ns_android_headline # Out (ns_android_detail host) # tip_entries host) @
          (if host = Darwin \<and> \<not> xcode
           then [Warn ns_xcode_headline, Out (ns_xcode_detail host)] else []) @
          (if itunes then [] else [Warn ns_itunes_headline, Out (ns_itunes_detail host)]) @
          (if java then [] else [Warn ns_java_headline, Out (ns_java_detail host)])
      | LegacyProduct \<Rightarrow>
          (if adb then []
           else Warn ab_adb_headline # Out (ab_adb_detail host) # tip_entries host) @
          (if android then []
           else Warn ab_android_headline # Out (ab_android_detail host) # tip_entries host) @
          (if itunes then [] else [Warn ab_itunes_headline, Out (ab_itunes_detail host)]) @
          (if java then [] else [Warn ab_java_headline, Out (ab_java_detail host)]))"

text \<open>
  One snapshot is at most as well equipped as another: every tool missing in the first is
  missing in the second.
\<close>

definition degraded :: "ISysInfoData \<Rightarrow> ISysInfoData \<Rightarrow> bool" where
  "degraded s s' =
     ((truthy (adbVer s') \<longrightarrow> truthy (adbVer s)) \<and>
      (truthy (antVer s') \<longrightarrow> truthy (antVer s)) \<and>
      (androidInstalled s' \<longrightarrow> androidInstalled s) \<and>
      (truthy (xcodeVer s') \<longrightarrow> truthy (xcodeVer s)) \<and>
      (itunesInstalled s' \<longrightarrow> itunesInstalled s) \<and>
      (truthy (javaVer s') \<longrightarrow> truthy (javaVer s)))"

text \<open>Snapshots used as examples.\<close>

definition nothing_installed :: ISysInfoData where
  "nothing_installed =
     \<lparr>adbVer = None, antVer = None, androidInstalled = False,
      xcodeVer = None, itunesInstalled = False, javaVer = None\<rparr>"

definition everything_installed :: ISysInfoData where
  "everything_installed =
     \<lparr>adbVer = Some ''1.0.32'', antVer = Some ''1.9'', androidInstalled = True,
      xcodeVer = Some ''6.1'', itunesInstalled = True, javaVer = Some ''1.8''\<rparr>"

definition example_snapshot :: ISysInfoData where
  "example_snapshot =
     \<lparr>adbVer = None, antVer = Some ''1.9'', androidInstalled = True,
      xcodeVer = None, itunesInstalled = True, javaVer = Some ''1.8''\<rparr>"

section \<open>The output as a sequence of blocks\<close>

lemma printPackageManagerTip_entries:
  "printPackageManagerTip host lg = lg @ tip_entries host"
  by (cases host)
     (simp_all add: printPackageManagerTip_def tip_entries_def tip_text_def
        isWindows_def isDarwin_def out_def)

lemma compose_emitted:
  "compose s p host =
     emitted p host (truthy (adbVer s)) (truthy (antVer s)) (androidInstalled s)
       (truthy (xcodeVer s)) (itunesInstalled s) (truthy (javaVer s))"
  by (cases p)
     (simp_all add: compose_def emitted_def printNSWarnings_def printAppBuilderWarnings_def
        printPackageManagerTip_entries warn_def out_def isDarwin_def Let_def)

lemma execute_compose:
  "execute CLIENT_NAME host s [] =
     compose s (if CLIENT_NAME = ''tns'' then PrimaryProduct else LegacyProduct) host"
  by (simp add: execute_def compose_def isNativeScript_def)

lemmas headline_defs =
  ns_adb_headline_def ns_ant_headline_def ns_android_headline_def ns_xcode_headline_def
  ns_itunes_headline_def ns_java_headline_def
  ab_adb_headline_def ab_android_headline_def ab_itunes_headline_def ab_java_headline_def

lemmas detail_defs =
  ns_adb_detail_def ns_ant_detail_def ns_android_detail_def ns_xcode_detail_def
  ns_itunes_detail_def ns_java_detail_def
  ab_adb_detail_def ab_android_detail_def ab_itunes_detail_def ab_java_detail_def

lemma rule_of_headlines:
  "rule_of_headline ns_adb_headline = Some 1"
  "rule_of_headline ab_adb_headline = Some 1"
  "rule_of_headline ns_ant_headline = Some 2"
  "rule_of_headline ns_android_headline = Some 3"
  "rule_of_headline ab_android_headline = Some 3"
  "rule_of_headline ns_xcode_headline = Some 4"
  "rule_of_headline ns_itunes_headline = Some 5"
  "rule_of_headline ab_itunes_headline = Some 5"
  "rule_of_headline ns_java_headline = Some 6"
  "rule_of_headline ab_java_headline = Some 6"
  by (simp_all add: rule_of_headline_def headline_defs)

lemma rule_of_entries:
  "rule_of (Out t) = None"
  "rule_of (Warn h) = rule_of_headline h"
  by (simp_all add: rule_of_def)

lemma is_tip_text_tips:
  "is_tip_text (windows_tip host)"
  "is_tip_text (darwin_tip host)"
  by (simp_all add: is_tip_text_def windows_tip_def darwin_tip_def)

lemma is_tip_entries:
  "is_tip (Warn h) = False"
  "is_tip (Out (windows_tip host)) = True"
  "is_tip (Out (darwin_tip host)) = True"
  "is_tip (Out (ns_adb_detail host)) = False"
  "is_tip (Out (ns_ant_detail host)) = False"
  "is_tip (Out (ns_android_detail host)) = False"
  "is_tip (Out (ns_xcode_detail host)) = False"
  "is_tip (Out (ns_itunes_detail host)) = False"
  "is_tip (Out (ns_java_detail host)) = False"
  "is_tip (Out (ab_adb_detail host)) = False"
  "is_tip (Out (ab_android_detail host)) = False"
  "is_tip (Out (ab_itunes_detail host)) = False"
  "is_tip (Out (ab_java_detail host)) = False"
  by (simp_all add: is_tip_def is_tip_text_def windows_tip_def darwin_tip_def detail_defs)

lemma fired_rules_simps:
  "fired_rules [] = []"
  "fired_rules (e # es) =
     (case rule_of e of None \<Rightarrow> fired_rules es | Some i \<Rightarrow> i # fired_rules es)"
  by (simp_all add: fired_rules_def map_filter_simps split: option.split)

text \<open>The rules that fire, read off the log, are those of the rule table.\<close>

lemma fired_rules_emitted:
  "fired_rules (emitted p host a b c d e f) =
     (if a then [] else [1]) @
     (if p = PrimaryProduct \<and> \<not> b then [2] else []) @
     (if c then [] else [3]) @
     (if p = PrimaryProduct \<and> host = Darwin \<and> \<not> d then [4] else []) @
     (if e then [] else [5]) @
     (if f then [] else [6])"
  by (cases p; cases host; cases a; cases b; cases c; cases d; cases e; cases f)
     (simp_all add: emitted_def tip_entries_def tip_text_def fired_rules_simps
        rule_of_entries rule_of_headlines)

text \<open>The units of output, one per block, with the tip of the host on rules 1 to 3.\<close>

lemma warnings_of_emitted:
  "warnings_of (emitted p host a b c d e f) =
     (case p of
        PrimaryProduct \<Rightarrow>
          (if a then []
           else [\<lparr>headline = ns_adb_headline, detail = ns_adb_detail host, tip = tip_text host\<rparr>]) @
          (if b then []
           else [\<lparr>headline = ns_ant_headline, detail = ns_ant_detail host, tip = tip_text host\<rparr>]) @
          (if c then []
           else [\<lparr>headline = ns_android_headline, detail = ns_android_detail host,
                  tip = tip_text host\<rparr>]) @
          (if host = Darwin \<and> \<not> d
           then [\<lparr>headline = ns_xcode_headline, detail = ns_xcode_detail host, tip = None\<rparr>]
           else []) @
          (if e then []
           else [\<lparr>headline = ns_itunes_headline, detail = ns_itunes_detail host, tip = None\<rparr>]) @
          (if f then []
           else [\<lparr>headline = ns_java_headline, detail = ns_java_detail host, tip = None\<rparr>])
      | LegacyProduct \<Rightarrow>
          (if a then []
           else [\<lparr>headline = ab_adb_headline, detail = ab_adb_detail host, tip = tip_text host\<rparr>]) @
          (if c then []
           else [\<lparr>headline = ab_android_headline, detail = ab_android_detail host,
                  tip = tip_text host\<rparr>]) @
          (if e then []
           else [\<lparr>headline = ab_itunes_headline, detail = ab_itunes_detail host, tip = None\<rparr>]) @
          (if f then []
           else [\<lparr>headline = ab_java_headline, detail = ab_java_detail host, tip = None\<rparr>]))"
  by (cases p; cases host; cases a; cases b; cases c; cases d; cases e; cases f)
     (simp_all add: emitted_def tip_entries_def tip_text_def is_tip_text_tips)

lemma render_warnings_of_emitted:
  "concat (map render (warnings_of (emitted p host a b c d e f))) = emitted p host a b c d e f"
  unfolding warnings_of_emitted
  by (cases p; cases host)
     (simp_all add: emitted_def tip_entries_def tip_text_def render_def)

lemma tips_of_emitted:
  "filter is_tip (emitted p host a b c d e f) =
     (if a then [] else tip_entries host) @
     (if p = PrimaryProduct \<and> \<not> b then tip_entries host else []) @
     (if c then [] else tip_entries host)"
  by (cases p; cases host)
     (simp_all add: emitted_def tip_entries_def tip_text_def is_tip_entries)

text \<open>The texts of rules 2 and 4 differ from every other text that is logged.\<close>

lemma xcode_headline_distinct:
  "ns_xcode_headline \<noteq> ns_adb_headline" "ns_xcode_headline \<noteq> ns_ant_headline"
  "ns_xcode_headline \<noteq> ns_android_headline" "ns_xcode_headline \<noteq> ns_itunes_headline"
  "ns_xcode_headline \<noteq> ns_java_headline" "ns_xcode_headline \<noteq> ab_adb_headline"
  "ns_xcode_headline \<noteq> ab_android_headline" "ns_xcode_headline \<noteq> ab_itunes_headline"
  "ns_xcode_headline \<noteq> ab_java_headline"
  by (simp_all add: headline_defs)

lemma ant_headline_distinct:
  "ns_ant_headline \<noteq> ab_adb_headline" "ns_ant_headline \<noteq> ab_android_headline"
  "ns_ant_headline \<noteq> ab_itunes_headline" "ns_ant_headline \<noteq> ab_java_headline"
  by (simp_all add: headline_defs)

lemma xcode_detail_distinct:
  "ns_xcode_detail host \<noteq> ns_adb_detail host" "ns_xcode_detail host \<noteq> ns_ant_detail host"
  "ns_xcode_detail host \<noteq> ns_android_detail host"
  "ns_xcode_detail host \<noteq> ns_itunes_detail host"
  "ns_xcode_detail host \<noteq> ns_java_detail host" "ns_xcode_detail host \<noteq> ab_adb_detail host"
  "ns_xcode_detail host \<noteq> ab_android_detail host"
  "ns_xcode_detail host \<noteq> ab_itunes_detail host"
  "ns_xcode_detail host \<noteq> ab_java_detail host"
  "ns_xcode_detail host \<noteq> windows_tip host" "ns_xcode_detail host \<noteq> darwin_tip host"
  by (simp_all add: detail_defs windows_tip_def darwin_tip_def)

lemma ant_detail_distinct:
  "ns_ant_detail host \<noteq> ab_adb_detail host" "ns_ant_detail host \<noteq> ab_android_detail host"
  "ns_ant_detail host \<noteq> ab_itunes_detail host" "ns_ant_detail host \<noteq> ab_java_detail host"
  "ns_ant_detail host \<noteq> windows_tip host" "ns_ant_detail host \<noteq> darwin_tip host"
  by (simp_all add: detail_defs windows_tip_def darwin_tip_def)

lemma tips_in_tip_entries:
  assumes "x \<in> set (emitted p host a b c d e f)" and "is_tip x"
  shows "x \<in> set (tip_entries host)"
proof -
  from assms have "x \<in> set (filter is_tip (emitted p host a b c d e f))"
    by simp
  then show ?thesis
    unfolding tips_of_emitted by (auto split: if_splits)
qed

text \<open>Each tip names its package manager.\<close>

lemma tip_names:
  "mentions ''chocolatey'' (Out (windows_tip host))"
  "mentions ''Homebrew'' (Out (darwin_tip host))"
  by (simp_all add: mentions_def windows_tip_def darwin_tip_def sublist_Cons_right)

text \<open>The texts of rules 5 and 6 are written twice in the source, once per procedure.\<close>

lemma itunes_java_texts:
  "ns_itunes_headline = ab_itunes_headline"
  "ns_itunes_detail host = ab_itunes_detail host"
  "ns_java_headline = ab_java_headline"
  "ns_java_detail host = ab_java_detail host"
  by (simp_all add: headline_defs detail_defs)

text \<open>A block that is logged for the better equipped snapshot is logged for the other.\<close>

lemma block_subseq:
  "(c' \<longrightarrow> c) \<Longrightarrow> subseq (if c then [] else xs) (if c' then [] else xs)"
  by simp

lemma block_subseq':
  "(c \<longrightarrow> c') \<Longrightarrow> subseq (if c then xs else []) (if c' then xs else [])"
  by simp

lemma emitted_subseq:
  assumes "a' \<longrightarrow> a" "b' \<longrightarrow> b" "c' \<longrightarrow> c" "d' \<longrightarrow> d" "e' \<longrightarrow> e" "f' \<longrightarrow> f"
  shows "subseq (emitted p host a b c d e f) (emitted p host a' b' c' d' e' f')"
proof (cases p)
  case PrimaryProduct
  from assms(4) have x: "host = Darwin \<and> \<not> d \<longrightarrow> host = Darwin \<and> \<not> d'" by blast
  show ?thesis unfolding emitted_def PrimaryProduct persona.case
    by (intro list_emb_append_mono block_subseq block_subseq' assms x)
next
  case LegacyProduct
  show ?thesis unfolding emitted_def LegacyProduct persona.case
    by (intro list_emb_append_mono block_subseq assms)
qed

lemma warnings_of_emitted_subseq:
  assumes "a' \<longrightarrow> a" "b' \<longrightarrow> b" "c' \<longrightarrow> c" "d' \<longrightarrow> d" "e' \<longrightarrow> e" "f' \<longrightarrow> f"
  shows "subseq (warnings_of (emitted p host a b c d e f))
           (warnings_of (emitted p host a' b' c' d' e' f'))"
proof (cases p)
  case PrimaryProduct
  from assms(4) have x: "host = Darwin \<and> \<not> d \<longrightarrow> host = Darwin \<and> \<not> d'" by blast
  show ?thesis unfolding warnings_of_emitted PrimaryProduct persona.case
    by (intro list_emb_append_mono block_subseq block_subseq' assms x)
next
  case LegacyProduct
  show ?thesis unfolding warnings_of_emitted LegacyProduct persona.case
    by (intro list_emb_append_mono block_subseq assms)
qed

section \<open>Properties of the output\<close>

text \<open>
  C6. When the system information reports every tool (the four versions are there and not
  empty, the Android SDK and iTunes are installed), nothing is logged, for every persona and
  every platform. A version counts as present when the test of the source succeeds on it;
  the specification (section 3) counts the empty value as absent.
\<close>

theorem all_present_no_output:
  assumes "truthy (adbVer s)" and "truthy (antVer s)" and "truthy (xcodeVer s)"
    and "truthy (javaVer s)" and "androidInstalled s" and "itunesInstalled s"
  shows "compose s p host = []"
  using assms by (cases p) (simp_all add: compose_emitted emitted_def)

theorem all_present_no_output_witness:
  "truthy (adbVer everything_installed) \<and> truthy (antVer everything_installed) \<and>
   truthy (xcodeVer everything_installed) \<and> truthy (javaVer everything_installed) \<and>
   androidInstalled everything_installed \<and> itunesInstalled everything_installed \<and>
   compose everything_installed PrimaryProduct Darwin = [] \<and>
   compose everything_installed LegacyProduct Windows = []"
proof -
  have h: "truthy (adbVer everything_installed)" "truthy (antVer everything_installed)"
    "truthy (xcodeVer everything_installed)" "truthy (javaVer everything_installed)"
    "androidInstalled everything_installed" "itunesInstalled everything_installed"
    by (simp_all add: everything_installed_def truthy_def)
  from h all_present_no_output [OF h, of PrimaryProduct Darwin]
    all_present_no_output [OF h, of LegacyProduct Windows]
  show ?thesis by simp
qed

text \<open>
  C7. The end-to-end example of the specification: adb and Xcode missing, everything else
  there, primary product on Darwin. The log is the adb headline and detail, the Homebrew
  tip, and the Xcode headline and detail, with the line ends of a Darwin host; read as
  units of output, it is the adb warning carrying the tip, then the Xcode warning without
  one.
\<close>

theorem end_to_end_example:
  "compose
     \<lparr>adbVer = None, antVer = Some ''1.9'', androidInstalled = True,
      xcodeVer = None, itunesInstalled = True, javaVer = Some ''1.8''\<rparr>
     PrimaryProduct Darwin =
     [Warn ''WARNING: adb from the Android SDK is not installed or is not configured properly.'',
      Out (''For Android-related operations, the NativeScript CLI will use a built-in version of adb.'' @ [CHR 0x0A] @
          ''To avoid possible issues with the native Android emulator, Genymotion or connected'' @ [CHR 0x0A] @
          ''Android devices, verify that you have installed the latest Android SDK and'' @ [CHR 0x0A] @
          ''its dependencies as described in http://developer.android.com/sdk/index.html#Requirements'' @ [CHR 0x0A]),
      Out (''TIP: To avoid setting up the necessary environment variables, you can use the Homebrew package manager to install the Android SDK and its dependencies.'' @ [CHR 0x0A]),
      Warn ''WARNING: Xcode is not installed or is not configured properly.'',
      Out (''You will not be able to build your projects for iOS or run them in the iOS Simulator.'' @ [CHR 0x0A] @
          ''To be able to build for iOS and run apps in the native emulator, verify that you have installed Xcode.'' @ [CHR 0x0A])]
   \<and> warnings_of (compose
     \<lparr>adbVer = None, antVer = Some ''1.9'', androidInstalled = True,
      xcodeVer = None, itunesInstalled = True, javaVer = Some ''1.8''\<rparr>
     PrimaryProduct Darwin) =
     [\<lparr>headline = ns_adb_headline, detail = ns_adb_detail Darwin,
        tip = Some (darwin_tip Darwin)\<rparr>,
      \<lparr>headline = ns_xcode_headline, detail = ns_xcode_detail Darwin, tip = None\<rparr>]"
  by (simp add: compose_emitted warnings_of_emitted truthy_def)
     (simp add: emitted_def tip_entries_def tip_text_def
        ns_adb_headline_def ns_adb_detail_def darwin_tip_def ns_xcode_headline_def
        ns_xcode_detail_def EOL_def isWindows_def)

text \<open>
  C1. The Xcode warning (rule 4) is in the output exactly when the persona is the primary
  product, the platform is Darwin and the Xcode version is absent: as a fired rule, as the
  headline logged and as the detail logged.
\<close>

theorem xcode_warning_iff:
  "(4 \<in> set (fired_rules (compose s p host))) =
     (p = PrimaryProduct \<and> host = Darwin \<and> \<not> truthy (xcodeVer s))
   \<and> (Warn ns_xcode_headline \<in> set (compose s p host)) =
     (p = PrimaryProduct \<and> host = Darwin \<and> \<not> truthy (xcodeVer s))
   \<and> (Out (ns_xcode_detail host) \<in> set (compose s p host)) =
     (p = PrimaryProduct \<and> host = Darwin \<and> \<not> truthy (xcodeVer s))"
proof (intro conjI)
  show "(4 \<in> set (fired_rules (compose s p host))) =
     (p = PrimaryProduct \<and> host = Darwin \<and> \<not> truthy (xcodeVer s))"
    by (simp add: compose_emitted fired_rules_emitted)
  show "(Warn ns_xcode_headline \<in> set (compose s p host)) =
     (p = PrimaryProduct \<and> host = Darwin \<and> \<not> truthy (xcodeVer s))"
    by (cases p; cases host)
       (auto simp: compose_emitted emitted_def tip_entries_def tip_text_def xcode_headline_distinct)
  show "(Out (ns_xcode_detail host) \<in> set (compose s p host)) =
     (p = PrimaryProduct \<and> host = Darwin \<and> \<not> truthy (xcodeVer s))"
    by (cases p; cases host)
       (auto simp: compose_emitted emitted_def tip_entries_def tip_text_def xcode_detail_distinct)
qed

text \<open>
  C2. The warnings come in the order of the rule table: the rule numbers of the headlines,
  read along the output, increase strictly. So of two rules that both fire, the one with
  the smaller number has its warning first, and no rule has its warning twice. The rules
  that fire are those whose test in the source fails, listed in the order of the table.
\<close>

theorem rule_order:
  "sorted_wrt (<) (fired_rules (compose s p host))
   \<and> fired_rules (compose s p host) =
       (if truthy (adbVer s) then [] else [1]) @
       (if p = PrimaryProduct \<and> \<not> truthy (antVer s) then [2] else []) @
       (if androidInstalled s then [] else [3]) @
       (if p = PrimaryProduct \<and> host = Darwin \<and> \<not> truthy (xcodeVer s) then [4] else []) @
       (if itunesInstalled s then [] else [5]) @
       (if truthy (javaVer s) then [] else [6])"
proof
  show "sorted_wrt (<) (fired_rules (compose s p host))"
    unfolding compose_emitted fired_rules_emitted
    by (auto simp: sorted_wrt_append)
qed (simp only: compose_emitted fired_rules_emitted)

text \<open>
  C3. The legacy product never logs the Apache Ant warning (rule 2) nor the Xcode warning
  (rule 4), whatever the snapshot and the platform: neither rule fires, and neither the
  headline nor the detail of either warning is logged.
\<close>

theorem legacy_no_ant_no_xcode:
  "2 \<notin> set (fired_rules (compose s LegacyProduct host)) \<and>
   4 \<notin> set (fired_rules (compose s LegacyProduct host)) \<and>
   Warn ns_ant_headline \<notin> set (compose s LegacyProduct host) \<and>
   Out (ns_ant_detail host) \<notin> set (compose s LegacyProduct host) \<and>
   Warn ns_xcode_headline \<notin> set (compose s LegacyProduct host) \<and>
   Out (ns_xcode_detail host) \<notin> set (compose s LegacyProduct host)"
proof (intro conjI)
  show "2 \<notin> set (fired_rules (compose s LegacyProduct host))"
    by (simp add: compose_emitted fired_rules_emitted)
  show "4 \<notin> set (fired_rules (compose s LegacyProduct host))"
    by (simp add: compose_emitted fired_rules_emitted)
  show "Warn ns_ant_headline \<notin> set (compose s LegacyProduct host)"
    by (cases host)
       (auto simp: compose_emitted emitted_def tip_entries_def tip_text_def ant_headline_distinct)
  show "Out (ns_ant_detail host) \<notin> set (compose s LegacyProduct host)"
    by (cases host)
       (auto simp: compose_emitted emitted_def tip_entries_def tip_text_def ant_detail_distinct)
  show "Warn ns_xcode_headline \<notin> set (compose s LegacyProduct host)"
    by (cases host)
       (auto simp: compose_emitted emitted_def tip_entries_def tip_text_def xcode_headline_distinct)
  show "Out (ns_xcode_detail host) \<notin> set (compose s LegacyProduct host)"
    by (cases host)
       (auto simp: compose_emitted emitted_def tip_entries_def tip_text_def xcode_detail_distinct)
qed

text \<open>
  C4. Read as units of output, a warning of rule 1, 2 or 3 carries a tip exactly when the
  platform is Windows or Darwin, and a warning of rule 4, 5 or 6 never carries one. On any
  other platform no call of the logger is a tip. The log is the units written out in order,
  each as headline, detail and then its tip, so a tip that is there stands right after the
  detail of its warning.
\<close>

theorem tip_presence:
  "(\<forall>w \<in> set (warnings_of (compose s p host)).
      rule_of_headline (headline w) \<in> {Some 1, Some 2, Some 3} \<longrightarrow>
      (tip w \<noteq> None) = (host = Windows \<or> host = Darwin))
   \<and> (\<forall>w \<in> set (warnings_of (compose s p host)).
      rule_of_headline (headline w) \<in> {Some 4, Some 5, Some 6} \<longrightarrow> tip w = None)
   \<and> (host = Other \<longrightarrow> (\<forall>e \<in> set (compose s p host). \<not> is_tip e))
   \<and> concat (map render (warnings_of (compose s p host))) = compose s p host"
proof (intro conjI)
  show "\<forall>w \<in> set (warnings_of (compose s p host)).
      rule_of_headline (headline w) \<in> {Some 1, Some 2, Some 3} \<longrightarrow>
      (tip w \<noteq> None) = (host = Windows \<or> host = Darwin)"
    unfolding compose_emitted warnings_of_emitted
    by (cases p; cases host) (simp_all add: rule_of_headlines tip_text_def)
  show "\<forall>w \<in> set (warnings_of (compose s p host)).
      rule_of_headline (headline w) \<in> {Some 4, Some 5, Some 6} \<longrightarrow> tip w = None"
    unfolding compose_emitted warnings_of_emitted
    by (cases p; cases host) (simp_all add: rule_of_headlines tip_text_def)
  show "host = Other \<longrightarrow> (\<forall>e \<in> set (compose s p host). \<not> is_tip e)"
  proof
    assume "host = Other"
    then have "filter is_tip (compose s p host) = []"
      by (simp add: compose_emitted tips_of_emitted tip_entries_def tip_text_def)
    then show "\<forall>e \<in> set (compose s p host). \<not> is_tip e"
      by (simp add: filter_empty_conv)
  qed
  show "concat (map render (warnings_of (compose s p host))) = compose s p host"
    by (simp only: compose_emitted render_warnings_of_emitted)
qed

theorem tip_presence_witness:
  "map (\<lambda>w. (rule_of_headline (headline w), tip w \<noteq> None))
     (warnings_of (compose nothing_installed PrimaryProduct Darwin)) =
     [(Some 1, True), (Some 2, True), (Some 3, True),
      (Some 4, False), (Some 5, False), (Some 6, False)]
   \<and> map (\<lambda>w. (rule_of_headline (headline w), tip w \<noteq> None))
     (warnings_of (compose nothing_installed LegacyProduct Other)) =
     [(Some 1, False), (Some 3, False), (Some 5, False), (Some 6, False)]
   \<and> length (compose nothing_installed LegacyProduct Other) = 8
   \<and> list_all (\<lambda>e. \<not> is_tip e) (compose nothing_installed LegacyProduct Other)"
  using tip_presence [of nothing_installed PrimaryProduct Darwin]
    tip_presence [of nothing_installed LegacyProduct Other]
  by (simp add: compose_emitted warnings_of_emitted nothing_installed_def truthy_def
        rule_of_headlines tip_text_def)
     (simp add: emitted_def tip_entries_def tip_text_def is_tip_entries)

text \<open>
  C5. On Windows and on Darwin the tip is logged once for every tip-eligible rule that
  fires and is not shared between them. The rules that fire are read off the snapshot: rule
  1 when the adb version is absent, rule 2 when the persona is the primary product and the
  Ant version is absent, rule 3 when the Android SDK is not installed. The number of tips in
  the log is the number of these rules; the warnings of rules 1, 2 and 3 in the output are
  those of these rules, in table order, each carrying the tip of the platform; the number of
  tips is also the number of headlines of rules 1, 2 and 3 in the log; and the tips of the
  log are exactly the tips that the warnings carry, in the same order.
\<close>

theorem tip_per_firing:
  assumes "host = Windows \<or> host = Darwin"
  shows "length (filter is_tip (compose s p host)) =
           (if truthy (adbVer s) then 0 else 1) +
           (if p = PrimaryProduct \<and> \<not> truthy (antVer s) then 1 else 0) +
           (if androidInstalled s then 0 else 1)
     \<and> map (\<lambda>w. (rule_of_headline (headline w), tip w))
           (filter (\<lambda>w. rule_of_headline (headline w) \<in> {Some 1, Some 2, Some 3})
              (warnings_of (compose s p host))) =
           (if truthy (adbVer s) then [] else [(Some 1, tip_text host)]) @
           (if p = PrimaryProduct \<and> \<not> truthy (antVer s) then [(Some 2, tip_text host)] else []) @
           (if androidInstalled s then [] else [(Some 3, tip_text host)])
     \<and> tip_text host \<noteq> None
     \<and> length (filter is_tip (compose s p host)) =
           length (filter (\<lambda>i. i \<in> {1, 2, 3}) (fired_rules (compose s p host)))
     \<and> (\<forall>w \<in> set (warnings_of (compose s p host)).
           rule_of_headline (headline w) \<in> {Some 1, Some 2, Some 3} \<longrightarrow>
           tip w \<noteq> None \<and> tip w = tip_text host)
     \<and> filter is_tip (compose s p host) =
           map Out (List.map_filter tip (warnings_of (compose s p host)))"
proof (intro conjI)
  show "length (filter is_tip (compose s p host)) =
           (if truthy (adbVer s) then 0 else 1) +
           (if p = PrimaryProduct \<and> \<not> truthy (antVer s) then 1 else 0) +
           (if androidInstalled s then 0 else 1)"
    using assms unfolding compose_emitted tips_of_emitted
    by (auto simp: tip_entries_def tip_text_def)
  show "map (\<lambda>w. (rule_of_headline (headline w), tip w))
           (filter (\<lambda>w. rule_of_headline (headline w) \<in> {Some 1, Some 2, Some 3})
              (warnings_of (compose s p host))) =
           (if truthy (adbVer s) then [] else [(Some 1, tip_text host)]) @
           (if p = PrimaryProduct \<and> \<not> truthy (antVer s) then [(Some 2, tip_text host)] else []) @
           (if androidInstalled s then [] else [(Some 3, tip_text host)])"
    unfolding compose_emitted warnings_of_emitted
    by (cases p) (simp_all add: rule_of_headlines)
  show "tip_text host \<noteq> None"
    using assms by (auto simp: tip_text_def)
  show "length (filter is_tip (compose s p host)) =
           length (filter (\<lambda>i. i \<in> {1, 2, 3}) (fired_rules (compose s p host)))"
    using assms unfolding compose_emitted tips_of_emitted fired_rules_emitted
    by (auto simp: tip_entries_def tip_text_def)
  show "\<forall>w \<in> set (warnings_of (compose s p host)).
           rule_of_headline (headline w) \<in> {Some 1, Some 2, Some 3} \<longrightarrow>
           tip w \<noteq> None \<and> tip w = tip_text host"
    using assms unfolding compose_emitted warnings_of_emitted
    by (cases p) (auto simp: rule_of_headlines tip_text_def)
  show "filter is_tip (compose s p host) =
           map Out (List.map_filter tip (warnings_of (compose s p host)))"
    unfolding compose_emitted tips_of_emitted warnings_of_emitted
    by (cases p; cases host) (simp_all add: map_filter_simps tip_entries_def tip_text_def)
qed

text \<open>
  With nothing installed, the primary product logs three tips and the legacy product two,
  on Windows and on Darwin; with only adb missing, each logs one.
\<close>

theorem tip_per_firing_witness:
  "(Windows = Windows \<or> Windows = Darwin) \<and> (Darwin = Windows \<or> Darwin = Darwin)
   \<and> fired_rules (compose nothing_installed PrimaryProduct Windows) = [1, 2, 3, 5, 6]
   \<and> filter is_tip (compose nothing_installed PrimaryProduct Windows) =
       [Out (windows_tip Windows), Out (windows_tip Windows), Out (windows_tip Windows)]
   \<and> map tip (warnings_of (compose nothing_installed PrimaryProduct Windows)) =
       [Some (windows_tip Windows), Some (windows_tip Windows), Some (windows_tip Windows),
        None, None]
   \<and> fired_rules (compose nothing_installed LegacyProduct Windows) = [1, 3, 5, 6]
   \<and> filter is_tip (compose nothing_installed LegacyProduct Windows) =
       [Out (windows_tip Windows), Out (windows_tip Windows)]
   \<and> map tip (warnings_of (compose nothing_installed LegacyProduct Windows)) =
       [Some (windows_tip Windows), Some (windows_tip Windows), None, None]
   \<and> length (filter is_tip (compose nothing_installed LegacyProduct Darwin)) = 2
   \<and> filter is_tip (compose nothing_installed LegacyProduct Darwin) =
       [Out (darwin_tip Darwin), Out (darwin_tip Darwin)]
   \<and> length (filter is_tip (compose example_snapshot LegacyProduct Windows)) = 1
   \<and> length (filter is_tip (compose example_snapshot PrimaryProduct Darwin)) = 1"
proof -
  have w: "Windows = Windows \<or> Windows = Darwin" by simp
  have d: "Darwin = Windows \<or> Darwin = Darwin" by simp
  from tip_per_firing [OF w, of nothing_installed PrimaryProduct]
    tip_per_firing [OF w, of nothing_installed LegacyProduct]
    tip_per_firing [OF d, of nothing_installed LegacyProduct]
    tip_per_firing [OF w, of example_snapshot LegacyProduct]
    tip_per_firing [OF d, of example_snapshot PrimaryProduct]
  show ?thesis
    by (simp add: compose_emitted warnings_of_emitted fired_rules_emitted tips_of_emitted
          nothing_installed_def example_snapshot_def truthy_def tip_entries_def tip_text_def
          map_filter_simps)
qed

text \<open>
  C8. The text of a tip depends on the platform alone: two tips logged on the same platform
  are the same logger call, whatever the two snapshots and the two personas. A tip logged
  on Windows names chocolatey, a tip logged on Darwin names Homebrew, and no tip is logged
  anywhere else.
\<close>

theorem tip_text_platform_only:
  assumes "e \<in> set (compose s p host)" and "is_tip e"
    and "e' \<in> set (compose s' p' host)" and "is_tip e'"
  shows "e = e' \<and>
     (host = Windows \<and> mentions ''chocolatey'' e \<or> host = Darwin \<and> mentions ''Homebrew'' e)"
proof -
  from assms(1,2) have e: "e \<in> set (tip_entries host)"
    unfolding compose_emitted by (rule tips_in_tip_entries)
  from assms(3,4) have e': "e' \<in> set (tip_entries host)"
    unfolding compose_emitted by (rule tips_in_tip_entries)
  from e e' show ?thesis
    by (cases host) (simp_all add: tip_entries_def tip_text_def tip_names)
qed

theorem tip_text_platform_only_witness:
  "Out (windows_tip Windows) \<in> set (compose nothing_installed PrimaryProduct Windows)
   \<and> Out (windows_tip Windows) \<in> set (compose example_snapshot LegacyProduct Windows)
   \<and> is_tip (Out (windows_tip Windows))
   \<and> mentions ''chocolatey'' (Out (windows_tip Windows))"
proof -
  have h1: "Out (windows_tip Windows) \<in> set (compose nothing_installed PrimaryProduct Windows)"
    by (simp add: compose_emitted emitted_def nothing_installed_def truthy_def
          tip_entries_def tip_text_def)
  have h2: "Out (windows_tip Windows) \<in> set (compose example_snapshot LegacyProduct Windows)"
    by (simp add: compose_emitted emitted_def example_snapshot_def truthy_def
          tip_entries_def tip_text_def)
  have h3: "is_tip (Out (windows_tip Windows))"
    by (simp add: is_tip_entries)
  from h1 h2 h3 tip_text_platform_only [OF h1 h3 h2 h3] show ?thesis
    by simp
qed

text \<open>
  C9. The iTunes warning (rule 5) and the JDK warning (rule 6) are the same units of output,
  headline and detail character for character, for the primary and for the legacy product:
  the warnings of these two rules, taken out of the two outputs for one snapshot and one
  platform, are equal, and they are there whenever iTunes, respectively the JDK, is missing.
\<close>

theorem itunes_java_same_wording:
  "filter (\<lambda>w. rule_of_headline (headline w) \<in> {Some 5, Some 6})
     (warnings_of (compose s PrimaryProduct host)) =
   filter (\<lambda>w. rule_of_headline (headline w) \<in> {Some 5, Some 6})
     (warnings_of (compose s LegacyProduct host))
   \<and> map (\<lambda>w. rule_of_headline (headline w))
       (filter (\<lambda>w. rule_of_headline (headline w) \<in> {Some 5, Some 6})
          (warnings_of (compose s LegacyProduct host))) =
     (if itunesInstalled s then [] else [Some 5]) @
     (if truthy (javaVer s) then [] else [Some 6])"
  unfolding compose_emitted warnings_of_emitted
  by (simp add: rule_of_headlines itunes_java_texts)

theorem itunes_java_same_wording_witness:
  "filter (\<lambda>w. rule_of_headline (headline w) \<in> {Some 5, Some 6})
     (warnings_of (compose nothing_installed PrimaryProduct Darwin)) =
     [\<lparr>headline = ab_itunes_headline, detail = ab_itunes_detail Darwin, tip = None\<rparr>,
      \<lparr>headline = ab_java_headline, detail = ab_java_detail Darwin, tip = None\<rparr>]
   \<and> length (warnings_of (compose nothing_installed PrimaryProduct Darwin)) = 6
   \<and> length (warnings_of (compose nothing_installed LegacyProduct Darwin)) = 4"
  using itunes_java_same_wording [of nothing_installed Darwin]
  by (simp add: compose_emitted warnings_of_emitted nothing_installed_def truthy_def
        rule_of_headlines)

text \<open>
  C10. Losing tools only adds output. If every tool that is missing in snapshot \<open>s\<close> is
  missing in snapshot \<open>s'\<close> as well, then for the same persona and platform the log for
  \<open>s\<close> is a subsequence of the log for \<open>s'\<close>, and so is its reading as units of output:
  what was logged stays, in the same order.
\<close>

theorem degraded_subseq:
  assumes "degraded s s'"
  shows "subseq (compose s p host) (compose s' p host) \<and>
         subseq (warnings_of (compose s p host)) (warnings_of (compose s' p host))"
  using assms unfolding compose_emitted degraded_def
  by (simp add: emitted_subseq warnings_of_emitted_subseq)

theorem degraded_subseq_witness:
  "degraded example_snapshot nothing_installed
   \<and> subseq (compose example_snapshot PrimaryProduct Darwin)
       (compose nothing_installed PrimaryProduct Darwin)
   \<and> length (compose example_snapshot PrimaryProduct Darwin) = 5
   \<and> length (compose nothing_installed PrimaryProduct Darwin) = 15"
proof -
  have h: "degraded example_snapshot nothing_installed"
    by (simp add: degraded_def example_snapshot_def nothing_installed_def truthy_def)
  have l: "length (compose example_snapshot PrimaryProduct Darwin) = 5"
    "length (compose nothing_installed PrimaryProduct Darwin) = 15"
    by (simp_all add: compose_emitted emitted_def example_snapshot_def nothing_installed_def
          truthy_def tip_entries_def tip_text_def)
  from h l degraded_subseq [OF h, of PrimaryProduct Darwin] show ?thesis
    by simp
qed

end
